theory Spec2Isabelle
  imports Main
begin

section \<open>Events of the evdev layer\<close>

text \<open>
  The event codes the driver names (libevdev's \<open>EV_ABS.*\<close>, \<open>EV_KEY.*\<close> and
  \<open>EV_SYN.*\<close> constants), and \<open>Other_code n\<close> for any code of the kernel's tables that
  the driver never mentions. The constructors are distinct, as the kernel's codes are.
\<close>

datatype evbit =
    ABS_X | ABS_Y | ABS_PRESSURE
  | BTN_LEFT | BTN_TOUCH | BTN_TOOL_PEN | BTN_TOOL_RUBBER | BTN_STYLUS | BTN_STYLUS2
  | SYN_REPORT | SYN_DROPPED
  | Other_code nat

datatype input_prop = INPUT_PROP_DIRECT | Other_prop nat

text \<open>
  \<open>libevdev.InputEvent\<close>: a code, a value and the kernel's time stamp. An event built by
  the driver itself (\<open>InputEvent(code, value=v)\<close>) carries no time stamp.
\<close>

record input_event =
  ev_code :: evbit
  ev_value :: int
  ev_sec :: "int option"
  ev_usec :: "int option"

definition InputEvent :: "evbit \<Rightarrow> int \<Rightarrow> input_event" where
  "InputEvent c v = \<lparr>ev_code = c, ev_value = v, ev_sec = None, ev_usec = None\<rparr>"

text \<open>\<open>e.matches(code)\<close> with an event code as its argument compares the codes.\<close>

definition matches :: "input_event \<Rightarrow> evbit \<Rightarrow> bool" where
  "matches e c = (ev_code e = c)"

text \<open>\<open>libevdev.InputAbsInfo\<close>: every field is \<open>None\<close> unless the caller gives it.\<close>

record absinfo =
  minimum :: "int option"
  maximum :: "int option"
  fuzz :: "int option"
  flat :: "int option"
  resolution :: "int option"
  abs_value :: "int option"

definition InputAbsInfo :: absinfo where
  "InputAbsInfo = \<lparr>minimum = None, maximum = None, fuzz = None, flat = None,
                    resolution = None, abs_value = None\<rparr>"

text \<open>
  \<open>libevdev.Device()\<close> as a capability description: its name, the properties and the event
  codes enabled so far (in the order of the \<open>enable\<close> calls), each code with the axis
  information given with it.
\<close>

record device =
  dev_name :: string
  properties :: "input_prop list"
  evbits :: "(evbit \<times> absinfo option) list"

definition Device :: device where
  "Device = \<lparr>dev_name = [], properties = [], evbits = []\<rparr>"

definition enable_prop :: "input_prop \<Rightarrow> device \<Rightarrow> device" where
  "enable_prop p d = d\<lparr>properties := properties d @ [p]\<rparr>"

definition enable :: "evbit \<Rightarrow> absinfo option \<Rightarrow> device \<Rightarrow> device" where
  "enable c a d = d\<lparr>evbits := evbits d @ [(c, a)]\<rparr>"

section \<open>The process: standard output, clock, exceptions\<close>

text \<open>
  What one \<open>print\<close> call writes. The text of \<open>print_event\<close>, of \<open>print_capabilities\<close>
  and of the line naming the device node depends on libevdev's tables and on the kernel;
  these three are kept as tokens, all other lines are the strings of the source.
\<close>

datatype printed =
    Text string
  | Event_trace input_event
  | Capabilities
  | New_device

text \<open>A reading of \<open>datetime.datetime.now()\<close>.\<close>

type_synonym timestamp = int

text \<open>
  The exceptions that reach \<open>main\<close>. An \<open>OS_failure\<close> is an instance of \<open>OSError\<close> or of
  one of its subclasses (\<open>PermissionError\<close>, \<open>FileNotFoundError\<close>, ...), with its
  \<open>errno\<close> and its \<open>str()\<close>. In Python 3 the name \<open>IOError\<close> is bound to the class
  \<open>OSError\<close> itself.
\<close>

datatype pyexc =
    Interrupt
  | OS_failure (errno: int) (exc_str: string)
  | Other_failure string

datatype exc_class = KeyboardInterrupt | OSError

definition IOError :: exc_class where
  "IOError = OSError"

fun isinstance :: "pyexc \<Rightarrow> exc_class \<Rightarrow> bool" where
  "isinstance Interrupt c = (c = KeyboardInterrupt)"
| "isinstance (OS_failure n m) c = (c = OSError)"
| "isinstance (Other_failure m) c = False"

text \<open>The two constants of Python's \<open>errno\<close> module that \<open>main\<close> compares with (Linux).\<close>

definition EACCES :: int where "EACCES = 13"
definition ENOENT :: int where "ENOENT = 2"

section \<open>The class Tablet\<close>

text \<open>
  The attributes of a \<open>Tablet\<close> object. \<open>uinput\<close> is the virtual device seen from outside:
  the bursts it has been sent, one list per \<open>uinput.send_events\<close> call, oldest first.
  \<open>stdout\<close> is the standard output of the process, carried along with the object.
\<close>

record tablet =
  tablet_name :: string
  dev :: device
  is_away :: bool
  is_touching :: bool
  pressed_button_1 :: bool
  pressed_button_2 :: bool
  lastmodif :: timestamp
  uinput :: "input_event list list"
  stdout :: "printed list"

definition print :: "printed \<Rightarrow> tablet \<Rightarrow> tablet" where
  "print l s = s\<lparr>stdout := stdout s @ [l]\<rparr>"

definition print_event :: "input_event \<Rightarrow> tablet \<Rightarrow> tablet" where
  "print_event e s = print (Event_trace e) s"

definition str_bool :: "bool \<Rightarrow> string" where
  "str_bool b = (if b then ''True'' else ''False'')"

text \<open>Lines 63 to 93 of \<open>__enter__\<close>: the description of the virtual device.\<close>

definition enter_dev :: device where
  "enter_dev =
    (enable SYN_DROPPED None
    (enable SYN_REPORT None
    (enable ABS_PRESSURE (Some (InputAbsInfo\<lparr>minimum := Some 0, maximum := Some 8191\<rparr>))
    (enable ABS_Y (Some (InputAbsInfo\<lparr>minimum := Some 0, maximum := Some 32767,
                                        resolution := Some 100\<rparr>))
    (enable ABS_X (Some (InputAbsInfo\<lparr>minimum := Some 0, maximum := Some 32767,
                                        resolution := Some 100\<rparr>))
    (enable BTN_STYLUS2 None
    (enable BTN_STYLUS None
    (enable BTN_TOUCH None
    (enable BTN_TOOL_RUBBER None
    (enable BTN_TOOL_PEN None
    (enable_prop INPUT_PROP_DIRECT
    (Device\<lparr>dev_name := ''Tablet alone''\<rparr>))))))))))))"

definition reset_state :: "timestamp \<Rightarrow> tablet \<Rightarrow> tablet" where
  "reset_state now s =
     s\<lparr>is_away := True, is_touching := False, pressed_button_1 := False,
       pressed_button_2 := False, lastmodif := now\<rparr>"

text \<open>
  \<open>Tablet(name).__enter__()\<close>. \<open>created\<close> is what \<open>create_uinput_device\<close> does: \<open>None\<close>
  when it succeeds, the exception it raises otherwise. The state attributes do not exist
  before \<open>reset_state\<close> assigns them; the values they are given here are all overwritten
  by it.
\<close>

definition enter :: "string \<Rightarrow> pyexc option \<Rightarrow> timestamp \<Rightarrow> pyexc + tablet" where
  "enter nm created now =
     (case created of
        Some x \<Rightarrow> Inl x
      | None \<Rightarrow>
          Inr (reset_state now
                 (print New_device
                    \<lparr>tablet_name = nm, dev = enter_dev, is_away = False, is_touching = False,
                     pressed_button_1 = False, pressed_button_2 = False, lastmodif = 0,
                     uinput = [], stdout = []\<rparr>)))"

definition send_events :: "timestamp \<Rightarrow> input_event list \<Rightarrow> bool \<Rightarrow> tablet \<Rightarrow> tablet" where
  "send_events now events away s =
     (let s1 = s\<lparr>lastmodif := now\<rparr>;
          s2 = s1\<lparr>is_away := away\<rparr>
      in s2\<lparr>uinput := uinput s2 @ [events]\<rparr>)"

definition b2i :: "bool \<Rightarrow> int" where
  "b2i b = (if b then 1 else 0)"

definition send_state_no_pos :: "timestamp \<Rightarrow> bool \<Rightarrow> tablet \<Rightarrow> tablet" where
  "send_state_no_pos now away s =
     (let s1 = s\<lparr>lastmodif := now\<rparr>;
          s2 = s1\<lparr>is_away := away\<rparr>;
          s3 = print (Text (''Away: '' @ str_bool (is_away s2) @ '', Touching: ''
                            @ str_bool (is_touching s2))) s2
      in s3\<lparr>uinput := uinput s3 @
           [[InputEvent BTN_TOUCH (if is_touching s3 then 1 else 0),
             InputEvent BTN_TOOL_PEN (if \<not> is_away s3 then 1 else 0),
             InputEvent BTN_STYLUS (if pressed_button_1 s3 then 1 else 0),
             InputEvent BTN_STYLUS2 (if pressed_button_2 s3 then 1 else 0),
             InputEvent SYN_REPORT 0]]\<rparr>)"

definition touch_press :: "timestamp \<Rightarrow> tablet \<Rightarrow> tablet" where
  "touch_press now s = send_state_no_pos now False (s\<lparr>is_touching := True\<rparr>)"

definition touch_release :: "timestamp \<Rightarrow> tablet \<Rightarrow> tablet" where
  "touch_release now s = send_state_no_pos now False (s\<lparr>is_touching := False\<rparr>)"

definition button_1_press :: "timestamp \<Rightarrow> tablet \<Rightarrow> tablet" where
  "button_1_press now s = send_state_no_pos now False (s\<lparr>pressed_button_1 := True\<rparr>)"

definition button_1_release :: "timestamp \<Rightarrow> tablet \<Rightarrow> tablet" where
  "button_1_release now s = send_state_no_pos now False (s\<lparr>pressed_button_1 := False\<rparr>)"

definition button_2_press :: "timestamp \<Rightarrow> tablet \<Rightarrow> tablet" where
  "button_2_press now s = send_state_no_pos now False (s\<lparr>pressed_button_2 := True\<rparr>)"

definition button_2_release :: "timestamp \<Rightarrow> tablet \<Rightarrow> tablet" where
  "button_2_release now s = send_state_no_pos now False (s\<lparr>pressed_button_2 := False\<rparr>)"

definition move_x :: "timestamp \<Rightarrow> int \<Rightarrow> tablet \<Rightarrow> tablet" where
  "move_x now abs_x s = send_events now [InputEvent ABS_X abs_x] False s"

definition move_y :: "timestamp \<Rightarrow> int \<Rightarrow> tablet \<Rightarrow> tablet" where
  "move_y now abs_y s = send_events now [InputEvent ABS_Y abs_y] False s"

definition change_pressure :: "timestamp \<Rightarrow> int \<Rightarrow> tablet \<Rightarrow> tablet" where
  "change_pressure now pressure s = send_events now [InputEvent ABS_PRESSURE pressure] False s"

text \<open>
  \<open>handle_event\<close>; \<open>now\<close> is what the clock reads while the event is handled (the branches
  for the sync marker and for an unknown code do not read it). The \<open>InputEvent\<close> built in
  the \<open>SYN_REPORT\<close> branch is discarded by the source, so that branch does nothing.
\<close>

definition handle_event :: "timestamp \<Rightarrow> input_event \<Rightarrow> tablet \<Rightarrow> tablet" where
  "handle_event now e s =
     (if matches e ABS_PRESSURE then change_pressure now (ev_value e) s
      else if matches e ABS_X then move_x now (ev_value e) s
      else if matches e ABS_Y then move_y now (ev_value e) s
      else if matches e BTN_LEFT then
        (if ev_value e = 1 then touch_press now s else touch_release now s)
      else if matches e SYN_REPORT then s
      else print_event e (print (Text ''Unkown event:'') s))"

section \<open>The function main\<close>

text \<open>
  The body of both \<open>for\<close> loops of \<open>main\<close>: trace the event, then handle it. Each event
  comes with the reading of the clock at the moment it is handled.
\<close>

definition loop_body :: "timestamp \<times> input_event \<Rightarrow> tablet \<Rightarrow> tablet" where
  "loop_body te s = handle_event (fst te) (snd te) (print_event (snd te) s)"

fun for_each :: "(timestamp \<times> input_event) list \<Rightarrow> tablet \<Rightarrow> tablet" where
  "for_each [] s = s"
| "for_each (te # tes) s = for_each tes (loop_body te s)"

text \<open>
  What the physical device delivers to the \<open>while True\<close> loop, in order: an event yielded
  by \<open>l.events()\<close>; \<open>EventsDroppedException\<close> raised by \<open>l.events()\<close>, with the events
  that \<open>l.sync()\<close> then yields; or another exception raised while reading. Where one
  \<open>l.events()\<close> call ends and the next starts leaves no trace, so the batches are
  concatenated.
\<close>

datatype feed =
    Event timestamp input_event
  | Dropped "(timestamp \<times> input_event) list"
  | Raise pyexc

text \<open>
  The \<open>while True\<close> loop on a finite piece of the device's stream. It is left only by an
  exception; the result \<open>None\<close> says that the stream given is used up and the loop is
  waiting in \<open>l.events()\<close>.
\<close>

fun main_loop :: "feed list \<Rightarrow> tablet \<Rightarrow> tablet \<times> pyexc option" where
  "main_loop [] s = (s, None)"
| "main_loop (Event t e # fs) s = main_loop fs (loop_body (t, e) s)"
| "main_loop (Dropped tes # fs) s = main_loop fs (for_each tes s)"
| "main_loop (Raise x # fs) s = (s, Some x)"

text \<open>
  How a call of \<open>main\<close> ends: it returns (the script then ends with status 0), an exception
  leaves it (the interpreter prints a traceback and ends with status 1), or it is still
  waiting for events.
\<close>

datatype outcome = Returns | Uncaught pyexc | Waiting

text \<open>
  The \<open>except\<close> clauses of \<open>main\<close>, tried in the order of the source; an exception raised
  inside a handler leaves the \<open>try\<close> statement. \<open>out\<close> is the standard output so far.
\<close>

definition main_except :: "string \<Rightarrow> printed list \<Rightarrow> pyexc \<Rightarrow> printed list \<times> outcome" where
  "main_except path out x =
     (if isinstance x KeyboardInterrupt then (out, Returns)
      else if isinstance x IOError then
        (if errno x = EACCES then
           (out @ [Text (''Insufficient permissions to access '' @ path)], Returns)
         else if errno x = ENOENT then
           (out @ [Text (''Device '' @ path @ '' does not exist'')], Returns)
         else (out, Uncaught x))
      else if isinstance x OSError then (out @ [Text (exc_str x)], Returns)
      else (out, Uncaught x))"

text \<open>
  What the environment does during one run: whether the virtual device can be created,
  the clock when the state is reset, whether the physical device can be opened and read
  by libevdev, and the stream it then delivers.
\<close>

record environment =
  created :: "pyexc option"
  started :: timestamp
  opened :: "pyexc option"
  stream :: "feed list"

definition banner :: string where
  "banner = ''################################'' @ [CHR 0x0A] @
            ''#      Waiting for events      #'' @ [CHR 0x0A] @
            ''################################''"

definition main :: "string \<Rightarrow> environment \<Rightarrow> printed list \<times> outcome" where
  "main path env =
     (case enter ''Tablet alone'' (created env) (started env) of
        Inl x \<Rightarrow> main_except path [] x
      | Inr tablet \<Rightarrow>
          (case opened env of
             Some x \<Rightarrow> main_except path (stdout tablet) x
           | None \<Rightarrow>
               (case main_loop (stream env)
                       (print (Text banner) (print Capabilities tablet)) of
                  (s, None) \<Rightarrow> (stdout s, Waiting)
                | (s, Some x) \<Rightarrow> main_except path (stdout s) x)))"

text \<open>The tablet right after a successful \<open>__enter__\<close> at clock reading \<open>now\<close>.\<close>

definition entered :: "timestamp \<Rightarrow> tablet" where
  "entered now =
     \<lparr>tablet_name = ''Tablet alone'', dev = enter_dev, is_away = True, is_touching = False,
      pressed_button_1 = False, pressed_button_2 = False, lastmodif = now,
      uinput = [], stdout = [New_device]\<rparr>"

section \<open>Vocabulary of the properties\<close>

text \<open>
  The definitions of this section are not part of the driver; the statements below are
  written with them.
\<close>

text \<open>An event as the physical device delivers it, stamped by the kernel.\<close>

definition raw :: "evbit \<Rightarrow> int \<Rightarrow> input_event" where
  "raw c v = \<lparr>ev_code = c, ev_value = v, ev_sec = Some 0, ev_usec = Some 0\<rparr>"

text \<open>The full state burst that describes a tablet state.\<close>

definition snapshot :: "tablet \<Rightarrow> input_event list" where
  "snapshot s =
     [InputEvent BTN_TOUCH (b2i (is_touching s)),
      InputEvent BTN_TOOL_PEN (b2i (\<not> is_away s)),
      InputEvent BTN_STYLUS (b2i (pressed_button_1 s)),
      InputEvent BTN_STYLUS2 (b2i (pressed_button_2 s)),
      InputEvent SYN_REPORT 0]"

definition booleans :: "tablet \<Rightarrow> bool \<times> bool \<times> bool \<times> bool" where
  "booleans s = (is_away s, is_touching s, pressed_button_1 s, pressed_button_2 s)"

definition is_axis :: "evbit \<Rightarrow> bool" where
  "is_axis c = (c = ABS_PRESSURE \<or> c = ABS_X \<or> c = ABS_Y)"

text \<open>
  What handling one raw event sends to the virtual device, given the two button
  attributes: the axis value alone, a full state burst with proximity 1, or nothing.
\<close>

definition replay_burst :: "bool \<Rightarrow> bool \<Rightarrow> input_event \<Rightarrow> input_event list list" where
  "replay_burst b1 b2 e =
     (if is_axis (ev_code e) then [[InputEvent (ev_code e) (ev_value e)]]
      else if ev_code e = BTN_LEFT then
        [[InputEvent BTN_TOUCH (b2i (ev_value e = 1)), InputEvent BTN_TOOL_PEN 1,
          InputEvent BTN_STYLUS (b2i b1), InputEvent BTN_STYLUS2 (b2i b2),
          InputEvent SYN_REPORT 0]]
      else [])"

text \<open>The touch-key events of a batch, in order.\<close>

definition touches :: "(timestamp \<times> input_event) list \<Rightarrow> input_event list" where
  "touches tes = filter (\<lambda>e. ev_code e = BTN_LEFT) (map snd tes)"

text \<open>The values of all pen-proximity events the virtual device has been sent.\<close>

definition proximity_reports :: "input_event list list \<Rightarrow> int list" where
  "proximity_reports bursts =
     map ev_value (filter (\<lambda>e. ev_code e = BTN_TOOL_PEN) (concat bursts))"

text \<open>
  Applying the transition \<open>f\<close> twice in a row from \<open>s\<close>: the second application changes
  none of the four booleans, and each application sends one burst, the full state burst
  of the state after the first.
\<close>

definition repeated :: "(timestamp \<Rightarrow> tablet \<Rightarrow> tablet) \<Rightarrow> timestamp \<Rightarrow> timestamp \<Rightarrow> tablet \<Rightarrow> bool" where
  "repeated f t1 t2 s =
     (let s1 = f t1 s; s2 = f t2 s1
      in booleans s2 = booleans s1
         \<and> uinput s1 = uinput s @ [snapshot s1]
         \<and> uinput s2 = uinput s1 @ [snapshot s1])"

section \<open>Basic facts\<close>

lemma enter_entered: "enter ''Tablet alone'' None now = Inr (entered now)"
  by (simp add: enter_def entered_def reset_state_def print_def)

lemma send_state_no_pos_sel [simp]:
  "is_away (send_state_no_pos now away s) = away"
  "is_touching (send_state_no_pos now away s) = is_touching s"
  "pressed_button_1 (send_state_no_pos now away s) = pressed_button_1 s"
  "pressed_button_2 (send_state_no_pos now away s) = pressed_button_2 s"
  "lastmodif (send_state_no_pos now away s) = now"
  "dev (send_state_no_pos now away s) = dev s"
  "tablet_name (send_state_no_pos now away s) = tablet_name s"
  "stdout (send_state_no_pos now away s) =
     stdout s @ [Text (''Away: '' @ str_bool away @ '', Touching: '' @ str_bool (is_touching s))]"
  by (simp_all add: send_state_no_pos_def print_def Let_def)

lemma send_state_no_pos_uinput:
  "uinput (send_state_no_pos now away s) = uinput s @ [snapshot (send_state_no_pos now away s)]"
  by (simp add: snapshot_def) (simp add: send_state_no_pos_def print_def Let_def b2i_def)

lemma send_events_sel [simp]:
  "is_away (send_events now evs away s) = away"
  "is_touching (send_events now evs away s) = is_touching s"
  "pressed_button_1 (send_events now evs away s) = pressed_button_1 s"
  "pressed_button_2 (send_events now evs away s) = pressed_button_2 s"
  "lastmodif (send_events now evs away s) = now"
  "dev (send_events now evs away s) = dev s"
  "tablet_name (send_events now evs away s) = tablet_name s"
  "stdout (send_events now evs away s) = stdout s"
  "uinput (send_events now evs away s) = uinput s @ [evs]"
  by (simp_all add: send_events_def Let_def)

lemma print_sel [simp]:
  "is_away (print l s) = is_away s"
  "is_touching (print l s) = is_touching s"
  "pressed_button_1 (print l s) = pressed_button_1 s"
  "pressed_button_2 (print l s) = pressed_button_2 s"
  "lastmodif (print l s) = lastmodif s"
  "dev (print l s) = dev s"
  "tablet_name (print l s) = tablet_name s"
  "uinput (print l s) = uinput s"
  "stdout (print l s) = stdout s @ [l]"
  by (simp_all add: print_def)

lemma entered_sel [simp]:
  "is_away (entered t0) = True"
  "is_touching (entered t0) = False"
  "pressed_button_1 (entered t0) = False"
  "pressed_button_2 (entered t0) = False"
  "lastmodif (entered t0) = t0"
  "dev (entered t0) = enter_dev"
  "uinput (entered t0) = []"
  "stdout (entered t0) = [New_device]"
  by (simp_all add: entered_def)

lemma is_axis_simps [simp]:
  "is_axis ABS_X" "is_axis ABS_Y" "is_axis ABS_PRESSURE"
  "\<not> is_axis BTN_LEFT" "\<not> is_axis SYN_REPORT" "\<not> is_axis BTN_TOOL_PEN"
  "\<not> is_axis (Other_code n)"
  by (simp_all add: is_axis_def)

lemma handle_event_axis:
  "is_axis (ev_code e) \<Longrightarrow>
   handle_event now e s = send_events now [InputEvent (ev_code e) (ev_value e)] False s"
  by (auto simp: is_axis_def handle_event_def matches_def move_x_def move_y_def
      change_pressure_def)

lemma handle_event_touch:
  "ev_code e = BTN_LEFT \<Longrightarrow>
   handle_event now e s = send_state_no_pos now False (s\<lparr>is_touching := (ev_value e = 1)\<rparr>)"
  by (simp add: handle_event_def matches_def touch_press_def touch_release_def)

lemma handle_event_sync: "ev_code e = SYN_REPORT \<Longrightarrow> handle_event now e s = s"
  by (simp add: handle_event_def matches_def)

lemma handle_event_unknown:
  "\<not> is_axis (ev_code e) \<Longrightarrow> ev_code e \<noteq> BTN_LEFT \<Longrightarrow> ev_code e \<noteq> SYN_REPORT \<Longrightarrow>
   handle_event now e s = print_event e (print (Text ''Unkown event:'') s)"
  by (simp add: is_axis_def handle_event_def matches_def)

lemma handle_event_cases:
  obtains (axis) "is_axis (ev_code e)"
  | (touch) "ev_code e = BTN_LEFT"
  | (sync) "ev_code e = SYN_REPORT"
  | (unknown) "\<not> is_axis (ev_code e)" "ev_code e \<noteq> BTN_LEFT" "ev_code e \<noteq> SYN_REPORT"
  by blast

lemma loop_body_buttons [simp]:
  "pressed_button_1 (loop_body te s) = pressed_button_1 s"
  "pressed_button_2 (loop_body te s) = pressed_button_2 s"
  by (cases "snd te" rule: handle_event_cases;
      simp add: loop_body_def print_event_def handle_event_axis handle_event_touch
        handle_event_sync handle_event_unknown)+

lemma loop_body_uinput:
  "uinput (loop_body te s) =
     uinput s @ replay_burst (pressed_button_1 s) (pressed_button_2 s) (snd te)"
  by (cases "snd te" rule: handle_event_cases)
     (simp_all add: loop_body_def print_event_def handle_event_axis handle_event_touch
        handle_event_sync handle_event_unknown replay_burst_def send_state_no_pos_uinput
        snapshot_def b2i_def)

lemma loop_body_touching:
  "is_touching (loop_body te s) =
     (if ev_code (snd te) = BTN_LEFT then ev_value (snd te) = 1 else is_touching s)"
  by (cases "snd te" rule: handle_event_cases)
     (auto simp: loop_body_def print_event_def handle_event_axis handle_event_touch
        handle_event_sync handle_event_unknown is_axis_def)

lemma loop_body_away:
  "is_away (loop_body te s) =
     (is_away s \<and> \<not> is_axis (ev_code (snd te)) \<and> ev_code (snd te) \<noteq> BTN_LEFT)"
  by (cases "snd te" rule: handle_event_cases)
     (auto simp: loop_body_def print_event_def handle_event_axis handle_event_touch
        handle_event_sync handle_event_unknown is_axis_def)

lemma for_each_buttons [simp]:
  "pressed_button_1 (for_each tes s) = pressed_button_1 s"
  "pressed_button_2 (for_each tes s) = pressed_button_2 s"
  by (induction tes arbitrary: s) simp_all

lemma for_each_uinput:
  "uinput (for_each tes s) =
     uinput s @ concat (map (replay_burst (pressed_button_1 s) (pressed_button_2 s) \<circ> snd) tes)"
  by (induction tes arbitrary: s) (simp_all add: loop_body_uinput)

lemma for_each_touching:
  "is_touching (for_each tes s) =
     (if touches tes = [] then is_touching s else ev_value (last (touches tes)) = 1)"
  by (induction tes arbitrary: s) (simp_all add: touches_def loop_body_touching)

lemma for_each_away:
  "is_away (for_each tes s) =
     (is_away s \<and>
      filter (\<lambda>e. is_axis (ev_code e) \<or> ev_code e = BTN_LEFT) (map snd tes) = [])"
  by (induction tes arbitrary: s) (auto simp: loop_body_away)

lemma main_loop_buttons [simp]:
  "pressed_button_1 (fst (main_loop fs s)) = pressed_button_1 s"
  "pressed_button_2 (fst (main_loop fs s)) = pressed_button_2 s"
  by (induction fs s rule: main_loop.induct) simp_all

lemma main_loop_away:
  "is_away (fst (main_loop fs s)) \<Longrightarrow>
   is_away s \<and> is_touching (fst (main_loop fs s)) = is_touching s"
proof (induction fs s rule: main_loop.induct)
  case (2 t e fs s)
  then show ?case by (auto simp: loop_body_away loop_body_touching)
next
  case (3 tes fs s)
  then have "is_away (for_each tes s)"
    and eq: "is_touching (fst (main_loop fs (for_each tes s))) = is_touching (for_each tes s)"
    by simp_all
  then have away: "is_away s"
    and none: "filter (\<lambda>e. is_axis (ev_code e) \<or> ev_code e = BTN_LEFT) (map snd tes) = []"
    by (simp_all add: for_each_away)
  from none have "touches tes = []"
    by (auto simp: touches_def filter_empty_conv)
  with away eq show ?case by (simp add: for_each_touching)
qed simp_all

lemma proximity_snoc:
  "proximity_reports (bs @ cs) = proximity_reports bs @ proximity_reports cs"
  by (simp add: proximity_reports_def)

lemma proximity_replay:
  "list_all (\<lambda>v. v = 1) (proximity_reports (replay_burst b1 b2 e))"
  by (auto simp: proximity_reports_def replay_burst_def InputEvent_def is_axis_def)

lemma loop_body_proximity:
  "list_all (\<lambda>v. v = 1) (proximity_reports (uinput s)) \<Longrightarrow>
   list_all (\<lambda>v. v = 1) (proximity_reports (uinput (loop_body te s)))"
  by (simp add: loop_body_uinput proximity_snoc proximity_replay)

lemma for_each_proximity:
  "list_all (\<lambda>v. v = 1) (proximity_reports (uinput s)) \<Longrightarrow>
   list_all (\<lambda>v. v = 1) (proximity_reports (uinput (for_each tes s)))"
  by (induction tes arbitrary: s) (simp_all add: loop_body_proximity)

lemma main_loop_proximity:
  "list_all (\<lambda>v. v = 1) (proximity_reports (uinput s)) \<Longrightarrow>
   list_all (\<lambda>v. v = 1) (proximity_reports (uinput (fst (main_loop fs s))))"
  by (induction fs s rule: main_loop.induct)
     (simp_all add: loop_body_proximity for_each_proximity)


lemma repeated_snapshot:
  assumes "\<And>t s. f t s = send_state_no_pos t False (g s)"
    and "\<And>s. uinput (g s) = uinput s"
    and "\<And>t s. booleans (send_state_no_pos t False (g (send_state_no_pos t1 False (g s))))
                 = booleans (send_state_no_pos t1 False (g s))"
  shows "repeated f t1 t2 s"
  using assms(3) [of t2 s]
  by (simp add: repeated_def Let_def assms(1) assms(2) send_state_no_pos_uinput
      snapshot_def booleans_def)


section \<open>The state burst\<close>

text \<open>
  Claim C1. Every burst sent by \<open>send_state_no_pos\<close> is, in this order, touch contact
  with the value of \<open>is_touching\<close>, pen proximity with the value of \<open>not is_away\<close>,
  stylus button 1, stylus button 2 and a sync marker, the attributes being read at the
  moment of sending (\<open>is_away\<close> has just been assigned the argument, the other three are
  untouched). From the state after \<open>__enter__\<close>, a touch key with value 1 followed by a
  sync marker sends exactly one burst: touch 1, proximity 1, both buttons 0, sync.
\<close>

theorem snapshot_burst_order:
  "uinput (send_state_no_pos now away s) = uinput s @
     [[InputEvent BTN_TOUCH (b2i (is_touching (send_state_no_pos now away s))),
       InputEvent BTN_TOOL_PEN (b2i (\<not> is_away (send_state_no_pos now away s))),
       InputEvent BTN_STYLUS (b2i (pressed_button_1 (send_state_no_pos now away s))),
       InputEvent BTN_STYLUS2 (b2i (pressed_button_2 (send_state_no_pos now away s))),
       InputEvent SYN_REPORT 0]]
   \<and> is_away (send_state_no_pos now away s) = away
   \<and> is_touching (send_state_no_pos now away s) = is_touching s
   \<and> pressed_button_1 (send_state_no_pos now away s) = pressed_button_1 s
   \<and> pressed_button_2 (send_state_no_pos now away s) = pressed_button_2 s
   \<and> uinput (fst (main_loop
        [Event t1 \<lparr>ev_code = BTN_LEFT, ev_value = 1, ev_sec = sec1, ev_usec = usec1\<rparr>,
         Event t2 \<lparr>ev_code = SYN_REPORT, ev_value = v2, ev_sec = sec2, ev_usec = usec2\<rparr>]
        (entered t0)))
     = [[InputEvent BTN_TOUCH 1, InputEvent BTN_TOOL_PEN 1, InputEvent BTN_STYLUS 0,
         InputEvent BTN_STYLUS2 0, InputEvent SYN_REPORT 0]]"
proof -
  have "uinput (send_state_no_pos now away s)
          = uinput s @ [snapshot (send_state_no_pos now away s)]"
    by (rule send_state_no_pos_uinput)
  moreover have "uinput (fst (main_loop
        [Event t1 \<lparr>ev_code = BTN_LEFT, ev_value = 1, ev_sec = sec1, ev_usec = usec1\<rparr>,
         Event t2 \<lparr>ev_code = SYN_REPORT, ev_value = v2, ev_sec = sec2, ev_usec = usec2\<rparr>]
        (entered t0)))
     = [[InputEvent BTN_TOUCH 1, InputEvent BTN_TOOL_PEN 1, InputEvent BTN_STYLUS 0,
         InputEvent BTN_STYLUS2 0, InputEvent SYN_REPORT 0]]"
    by (simp add: loop_body_uinput replay_burst_def b2i_def)
  ultimately show ?thesis by (simp add: snapshot_def)
qed

section \<open>Resynchronisation after dropped events\<close>

text \<open>
  Claim C2, as stated, fails. After \<open>EventsDroppedException\<close> the loop passes the events
  of \<open>l.sync()\<close> to \<open>handle_event\<close> one by one. With an empty batch the state after the
  resynchronisation still depends on the state before it and no burst is sent; and a batch
  reporting the touch key released (and the pen tool gone, a code \<open>handle_event\<close> does
  not know) sends a burst with proximity 1, not the burst of the claim.
\<close>

theorem resync_not_snapshot_counterexample:
  "is_touching (fst (main_loop [Dropped []] (touch_press 1 (entered 0))))
     \<noteq> is_touching (fst (main_loop [Dropped []] (entered 0)))
   \<and> uinput (fst (main_loop [Dropped []] (entered 0))) = []
   \<and> uinput (fst (main_loop [Dropped [(1, raw BTN_LEFT 0), (2, raw BTN_TOOL_PEN 0)]]
                  (entered 0)))
       \<noteq> [[InputEvent BTN_TOUCH 0, InputEvent BTN_TOOL_PEN 0, InputEvent BTN_STYLUS 0,
            InputEvent BTN_STYLUS2 0, InputEvent SYN_REPORT 0]]"
  by (simp add: touch_press_def loop_body_uinput replay_burst_def raw_def InputEvent_def
      b2i_def)

text \<open>
  Claim C2, as amended. The events of the resynchronisation batch are handled in order
  like ordinary events. Afterwards \<open>is_touching\<close> is decided by the last touch-key event
  of the batch and is unchanged if the batch has none, the two button attributes are
  unchanged, and \<open>is_away\<close> is true only if it was true before and the batch has neither
  an axis nor a touch-key event. Each axis event sends its value alone, each touch-key
  event sends a full state burst with proximity 1, every other event sends nothing. From
  the state after \<open>__enter__\<close>, a batch with the touch key at 0 sends the single burst
  touch 0, proximity 1, both buttons 0, sync.
\<close>

theorem resync_replays_batch:
  "main_loop (Dropped tes # fs) s = main_loop fs (for_each tes s)
   \<and> is_touching (for_each tes s) =
       (if touches tes = [] then is_touching s else ev_value (last (touches tes)) = 1)
   \<and> pressed_button_1 (for_each tes s) = pressed_button_1 s
   \<and> pressed_button_2 (for_each tes s) = pressed_button_2 s
   \<and> is_away (for_each tes s) =
       (is_away s \<and>
        filter (\<lambda>e. is_axis (ev_code e) \<or> ev_code e = BTN_LEFT) (map snd tes) = [])
   \<and> uinput (for_each tes s) =
       uinput s @ concat (map (replay_burst (pressed_button_1 s) (pressed_button_2 s) \<circ> snd) tes)
   \<and> uinput (fst (main_loop
         [Dropped [(t1, \<lparr>ev_code = BTN_LEFT, ev_value = 0, ev_sec = sec1, ev_usec = usec1\<rparr>)]]
         (entered t0)))
       = [[InputEvent BTN_TOUCH 0, InputEvent BTN_TOOL_PEN 1, InputEvent BTN_STYLUS 0,
           InputEvent BTN_STYLUS2 0, InputEvent SYN_REPORT 0]]"
  using for_each_touching [of tes s] for_each_away [of tes s] for_each_uinput [of tes s]
  by (simp add: loop_body_uinput replay_burst_def b2i_def)

section \<open>Away and touching\<close>

text \<open>
  Claim C3. In every state the loop of \<open>main\<close> reaches from the state after \<open>__enter__\<close>,
  whatever the device delivers (events and resynchronisation batches), \<open>is_away\<close> implies
  that \<open>is_touching\<close> is false.
\<close>

theorem away_implies_not_touching:
  "is_away (fst (main_loop fs (entered t0))) \<longrightarrow> \<not> is_touching (fst (main_loop fs (entered t0)))"
  using main_loop_away [of fs "entered t0"] by auto

text \<open>A run that ends away: a sync marker, then a batch holding an unknown code.\<close>

theorem away_implies_not_touching_witness:
  "is_away (fst (main_loop [Event 1 (raw SYN_REPORT 0), Dropped [(2, raw BTN_TOOL_PEN 1)]]
                   (entered 0)))
   \<and> \<not> is_touching (fst (main_loop [Event 1 (raw SYN_REPORT 0),
                                     Dropped [(2, raw BTN_TOOL_PEN 1)]] (entered 0)))"
  using away_implies_not_touching
    [of "[Event 1 (raw SYN_REPORT 0), Dropped [(2, raw BTN_TOOL_PEN 1)]]" 0]
  by (simp add: loop_body_away raw_def)

section \<open>Axis events\<close>

text \<open>
  Claim C4, as stated, fails: handling an axis event assigns \<open>is_away\<close> and \<open>lastmodif\<close>.
  In the state after \<open>__enter__\<close> at time 0, an X event handled at time 1 changes both.
\<close>

theorem axis_changes_state_counterexample:
  "is_away (handle_event 1 (raw ABS_X 5) (entered 0)) \<noteq> is_away (entered 0)
   \<and> lastmodif (handle_event 1 (raw ABS_X 5) (entered 0)) \<noteq> lastmodif (entered 0)"
  by (simp add: handle_event_axis raw_def)

text \<open>
  Claim C4, as amended. Handling an absolute pressure, X or Y event leaves \<open>is_touching\<close>
  and the two button attributes unchanged; it sets \<open>is_away\<close> to false and \<open>lastmodif\<close> to
  the current time.
\<close>

theorem axis_frame:
  assumes "ev_code e \<in> {ABS_PRESSURE, ABS_X, ABS_Y}"
  shows "is_touching (handle_event now e s) = is_touching s
       \<and> pressed_button_1 (handle_event now e s) = pressed_button_1 s
       \<and> pressed_button_2 (handle_event now e s) = pressed_button_2 s
       \<and> is_away (handle_event now e s) = False
       \<and> lastmodif (handle_event now e s) = now"
proof -
  from assms have "is_axis (ev_code e)" by (auto simp: is_axis_def)
  then show ?thesis by (simp add: handle_event_axis)
qed

text \<open>A Y event handled at time 3 while the pen touches.\<close>

theorem axis_frame_witness:
  "ev_code (raw ABS_Y 7) \<in> {ABS_PRESSURE, ABS_X, ABS_Y}
   \<and> is_touching (handle_event 3 (raw ABS_Y 7) (touch_press 2 (entered 0)))
   \<and> \<not> is_away (handle_event 3 (raw ABS_Y 7) (touch_press 2 (entered 0)))
   \<and> lastmodif (handle_event 3 (raw ABS_Y 7) (touch_press 2 (entered 0))) = 3"
  using axis_frame [of "raw ABS_Y 7" 3 "touch_press 2 (entered 0)"]
  by (simp add: raw_def touch_press_def)

section \<open>Repeated transitions\<close>

text \<open>
  Claim C5. Applying the same touch or button transition twice in a row changes none of
  the four booleans at the second application, which still sends a full state burst, equal
  to the one the first application sent. This holds for the six methods and for a touch-key
  event of any value handled twice.
\<close>

theorem repeated_transition_idempotent:
  "repeated touch_press t1 t2 s \<and> repeated touch_release t1 t2 s
   \<and> repeated button_1_press t1 t2 s \<and> repeated button_1_release t1 t2 s
   \<and> repeated button_2_press t1 t2 s \<and> repeated button_2_release t1 t2 s
   \<and> repeated (\<lambda>t. handle_event t \<lparr>ev_code = BTN_LEFT, ev_value = v, ev_sec = sec, ev_usec = usec\<rparr>)
        t1 t2 s"
proof -
  have "repeated touch_press t1 t2 s"
    by (rule repeated_snapshot [where g = "\<lambda>s. s\<lparr>is_touching := True\<rparr>"])
       (simp_all add: touch_press_def booleans_def)
  moreover have "repeated touch_release t1 t2 s"
    by (rule repeated_snapshot [where g = "\<lambda>s. s\<lparr>is_touching := False\<rparr>"])
       (simp_all add: touch_release_def booleans_def)
  moreover have "repeated button_1_press t1 t2 s"
    by (rule repeated_snapshot [where g = "\<lambda>s. s\<lparr>pressed_button_1 := True\<rparr>"])
       (simp_all add: button_1_press_def booleans_def)
  moreover have "repeated button_1_release t1 t2 s"
    by (rule repeated_snapshot [where g = "\<lambda>s. s\<lparr>pressed_button_1 := False\<rparr>"])
       (simp_all add: button_1_release_def booleans_def)
  moreover have "repeated button_2_press t1 t2 s"
    by (rule repeated_snapshot [where g = "\<lambda>s. s\<lparr>pressed_button_2 := True\<rparr>"])
       (simp_all add: button_2_press_def booleans_def)
  moreover have "repeated button_2_release t1 t2 s"
    by (rule repeated_snapshot [where g = "\<lambda>s. s\<lparr>pressed_button_2 := False\<rparr>"])
       (simp_all add: button_2_release_def booleans_def)
  moreover have "repeated
      (\<lambda>t. handle_event t \<lparr>ev_code = BTN_LEFT, ev_value = v, ev_sec = sec, ev_usec = usec\<rparr>)
      t1 t2 s"
    by (rule repeated_snapshot [where g = "\<lambda>s. s\<lparr>is_touching := (v = 1)\<rparr>"])
       (simp_all add: handle_event_touch booleans_def)
  ultimately show ?thesis by simp
qed

section \<open>Axis passthrough\<close>

text \<open>
  Claim C6. Handling an absolute pressure, X or Y event with value \<open>v\<close> sends exactly one
  burst holding exactly one event, the same axis with the same value \<open>v\<close>, and no sync
  marker. From the state after \<open>__enter__\<close>, a pressure event of 1000 alone makes the whole
  output the single event pressure 1000.
\<close>

theorem axis_passthrough_exact:
  "uinput (handle_event now \<lparr>ev_code = ABS_PRESSURE, ev_value = v, ev_sec = sec, ev_usec = usec\<rparr> s)
     = uinput s @ [[InputEvent ABS_PRESSURE v]]
   \<and> uinput (handle_event now \<lparr>ev_code = ABS_X, ev_value = v, ev_sec = sec, ev_usec = usec\<rparr> s)
     = uinput s @ [[InputEvent ABS_X v]]
   \<and> uinput (handle_event now \<lparr>ev_code = ABS_Y, ev_value = v, ev_sec = sec, ev_usec = usec\<rparr> s)
     = uinput s @ [[InputEvent ABS_Y v]]
   \<and> uinput (fst (main_loop
        [Event t1 \<lparr>ev_code = ABS_PRESSURE, ev_value = 1000, ev_sec = sec, ev_usec = usec\<rparr>]
        (entered t0)))
     = [[InputEvent ABS_PRESSURE 1000]]"
  by (simp add: handle_event_axis loop_body_uinput replay_burst_def)

section \<open>Unknown codes\<close>

text \<open>
  Claim C7. An event whose code is none of absolute pressure, X, Y, touch key and sync
  marker is traced and dropped: \<open>handle_event\<close> prints two lines and changes nothing
  else, and the loop of \<open>main\<close> goes on with the events that follow. With such an event
  between two touch-key events, the loop is still running afterwards and has sent exactly
  two full state bursts, in the order of the two touch-key events.
\<close>

theorem unknown_code_dropped:
  assumes "ev_code e \<notin> {ABS_PRESSURE, ABS_X, ABS_Y, BTN_LEFT, SYN_REPORT}"
  shows "handle_event now e s = s\<lparr>stdout := stdout s @ [Text ''Unkown event:'', Event_trace e]\<rparr>
       \<and> main_loop (Event t e # fs) s
          = main_loop fs
              (s\<lparr>stdout := stdout s @ [Event_trace e, Text ''Unkown event:'', Event_trace e]\<rparr>)
       \<and> snd (main_loop
            [Event t1 \<lparr>ev_code = BTN_LEFT, ev_value = v1, ev_sec = sec1, ev_usec = usec1\<rparr>,
             Event t e,
             Event t2 \<lparr>ev_code = BTN_LEFT, ev_value = v2, ev_sec = sec2, ev_usec = usec2\<rparr>] s)
          = None
       \<and> uinput (fst (main_loop
            [Event t1 \<lparr>ev_code = BTN_LEFT, ev_value = v1, ev_sec = sec1, ev_usec = usec1\<rparr>,
             Event t e,
             Event t2 \<lparr>ev_code = BTN_LEFT, ev_value = v2, ev_sec = sec2, ev_usec = usec2\<rparr>] s))
          = uinput s @
            [[InputEvent BTN_TOUCH (b2i (v1 = 1)), InputEvent BTN_TOOL_PEN 1,
              InputEvent BTN_STYLUS (b2i (pressed_button_1 s)),
              InputEvent BTN_STYLUS2 (b2i (pressed_button_2 s)), InputEvent SYN_REPORT 0],
             [InputEvent BTN_TOUCH (b2i (v2 = 1)), InputEvent BTN_TOOL_PEN 1,
              InputEvent BTN_STYLUS (b2i (pressed_button_1 s)),
              InputEvent BTN_STYLUS2 (b2i (pressed_button_2 s)), InputEvent SYN_REPORT 0]]"
proof -
  from assms have unk: "\<not> is_axis (ev_code e)" "ev_code e \<noteq> BTN_LEFT" "ev_code e \<noteq> SYN_REPORT"
    by (auto simp: is_axis_def)
  have h: "handle_event now e s = s\<lparr>stdout := stdout s @ [Text ''Unkown event:'', Event_trace e]\<rparr>"
    for now s
    by (simp add: handle_event_unknown [OF unk] print_event_def print_def)
  have l: "loop_body (t, e) s
      = s\<lparr>stdout := stdout s @ [Event_trace e, Text ''Unkown event:'', Event_trace e]\<rparr>"
    by (simp add: loop_body_def h) (simp add: print_event_def print_def)
  have r: "replay_burst b1 b2 e = []" for b1 b2
    using unk by (simp add: replay_burst_def)
  have m: "main_loop (Event t e # fs) s
      = main_loop fs
          (s\<lparr>stdout := stdout s @ [Event_trace e, Text ''Unkown event:'', Event_trace e]\<rparr>)"
    by (simp add: l)
  have n: "snd (main_loop [Event t1 a, Event t e, Event t2 b] s) = None" for a b
    by simp
  have u: "uinput (loop_body (t2, b) (loop_body (t, e) (loop_body (t1, a) s)))
      = uinput s @ replay_burst (pressed_button_1 s) (pressed_button_2 s) a
          @ replay_burst (pressed_button_1 s) (pressed_button_2 s) b" for a b
    by (simp add: loop_body_uinput r)
  show ?thesis
    unfolding m
    by (simp add: h u replay_burst_def)
qed

text \<open>A press, an unknown code and a release, from the state after \<open>__enter__\<close>.\<close>

theorem unknown_code_dropped_witness:
  "ev_code (raw (Other_code 42) 1) \<notin> {ABS_PRESSURE, ABS_X, ABS_Y, BTN_LEFT, SYN_REPORT}
   \<and> handle_event 2 (raw (Other_code 42) 1) (entered 0)
       = (entered 0)\<lparr>stdout := [New_device, Text ''Unkown event:'',
                                 Event_trace (raw (Other_code 42) 1)]\<rparr>
   \<and> uinput (fst (main_loop
        [Event 1 \<lparr>ev_code = BTN_LEFT, ev_value = 1, ev_sec = Some 0, ev_usec = Some 0\<rparr>,
         Event 2 (raw (Other_code 42) 1),
         Event 3 \<lparr>ev_code = BTN_LEFT, ev_value = 0, ev_sec = Some 0, ev_usec = Some 0\<rparr>]
        (entered 0)))
       = [[InputEvent BTN_TOUCH 1, InputEvent BTN_TOOL_PEN 1, InputEvent BTN_STYLUS 0,
           InputEvent BTN_STYLUS2 0, InputEvent SYN_REPORT 0],
          [InputEvent BTN_TOUCH 0, InputEvent BTN_TOOL_PEN 1, InputEvent BTN_STYLUS 0,
           InputEvent BTN_STYLUS2 0, InputEvent SYN_REPORT 0]]"
proof -
  have c: "ev_code (raw (Other_code 42) 1) \<notin> {ABS_PRESSURE, ABS_X, ABS_Y, BTN_LEFT, SYN_REPORT}"
    by (simp add: raw_def)
  show ?thesis
    using c unknown_code_dropped [OF c, of 2 "entered 0" 2 "[]" 1 1 "Some 0" "Some 0" 3 0
        "Some 0" "Some 0"]
    by (simp add: b2i_def del: main_loop.simps)
qed

section \<open>Exceptions in main\<close>

text \<open>
  An interrupt returns silently; a permission error and a missing path print a line that
  names the path and return. Any other \<open>OSError\<close> is raised again by the \<open>IOError\<close>
  clause, and the \<open>OSError\<close> clause after it is never reached.
\<close>

lemma main_except_interrupt: "main_except path out Interrupt = (out, Returns)"
  by (simp add: main_except_def)

lemma main_except_eacces:
  "main_except path out (OS_failure EACCES m)
     = (out @ [Text (''Insufficient permissions to access '' @ path)], Returns)"
  by (simp add: main_except_def IOError_def)

lemma main_except_enoent:
  "main_except path out (OS_failure ENOENT m)
     = (out @ [Text (''Device '' @ path @ '' does not exist'')], Returns)"
  by (simp add: main_except_def IOError_def EACCES_def ENOENT_def)

lemma main_except_other_errno:
  "n \<noteq> EACCES \<Longrightarrow> n \<noteq> ENOENT \<Longrightarrow>
   main_except path out (OS_failure n m) = (out, Uncaught (OS_failure n m))"
  by (simp add: main_except_def IOError_def)

lemma oserror_clause_unreachable: "isinstance x OSError \<Longrightarrow> isinstance x IOError"
  by (simp add: IOError_def)

text \<open>
  Claim C8 says that every OS error other than a permission error or a missing path has
  its message printed and that the process then exits cleanly. \<open>main\<close> does not do so:
  started on the directory \<open>/dev/input\<close>, \<open>open\<close> raises \<open>IsADirectoryError\<close> with
  \<open>errno\<close> 21, the \<open>IOError\<close> clause raises it again, nothing is printed after the line
  of \<open>__enter__\<close>, and the exception leaves \<open>main\<close>.
\<close>

theorem other_os_error_uncaught:
  "main ''/dev/input''
     \<lparr>created = None, started = 0,
      opened = Some (OS_failure 21 (''[Errno 21] Is a directory: '' @ [CHR 0x27] @
                                     ''/dev/input'' @ [CHR 0x27])),
      stream = []\<rparr>
   = ([New_device],
      Uncaught (OS_failure 21 (''[Errno 21] Is a directory: '' @ [CHR 0x27] @
                                 ''/dev/input'' @ [CHR 0x27])))"
  by (simp add: main_def enter_entered main_except_other_errno EACCES_def ENOENT_def)

section \<open>The description of the virtual device\<close>

text \<open>
  Claim C9. The description built by \<open>__enter__\<close> is a fixed value: the direct property
  and nothing else; the keys pen proximity, eraser proximity, touch contact, stylus
  button 1 and stylus button 2, the sync report and the dropped report, without axis
  information; X and Y with range 0 to 32767 and resolution 100; pressure with range
  0 to 8191 and no resolution. Whatever the name and the clock, \<open>__enter__\<close> returns a
  tablet with this description once the virtual device is created.
\<close>

theorem descriptor_exact:
  "dev_name enter_dev = ''Tablet alone''
   \<and> properties enter_dev = [INPUT_PROP_DIRECT]
   \<and> evbits enter_dev =
       [(BTN_TOOL_PEN, None), (BTN_TOOL_RUBBER, None), (BTN_TOUCH, None),
        (BTN_STYLUS, None), (BTN_STYLUS2, None),
        (ABS_X, Some \<lparr>minimum = Some 0, maximum = Some 32767, fuzz = None, flat = None,
                       resolution = Some 100, abs_value = None\<rparr>),
        (ABS_Y, Some \<lparr>minimum = Some 0, maximum = Some 32767, fuzz = None, flat = None,
                       resolution = Some 100, abs_value = None\<rparr>),
        (ABS_PRESSURE, Some \<lparr>minimum = Some 0, maximum = Some 8191, fuzz = None, flat = None,
                              resolution = None, abs_value = None\<rparr>),
        (SYN_REPORT, None), (SYN_DROPPED, None)]
   \<and> set (map fst (evbits enter_dev)) =
       {BTN_TOOL_PEN, BTN_TOOL_RUBBER, BTN_TOUCH, BTN_STYLUS, BTN_STYLUS2,
        ABS_X, ABS_Y, ABS_PRESSURE, SYN_REPORT, SYN_DROPPED}
   \<and> map_sum id dev (enter nm None now) = Inr enter_dev"
proof -
  have e: "evbits enter_dev =
       [(BTN_TOOL_PEN, None), (BTN_TOOL_RUBBER, None), (BTN_TOUCH, None),
        (BTN_STYLUS, None), (BTN_STYLUS2, None),
        (ABS_X, Some \<lparr>minimum = Some 0, maximum = Some 32767, fuzz = None, flat = None,
                       resolution = Some 100, abs_value = None\<rparr>),
        (ABS_Y, Some \<lparr>minimum = Some 0, maximum = Some 32767, fuzz = None, flat = None,
                       resolution = Some 100, abs_value = None\<rparr>),
        (ABS_PRESSURE, Some \<lparr>minimum = Some 0, maximum = Some 8191, fuzz = None, flat = None,
                              resolution = None, abs_value = None\<rparr>),
        (SYN_REPORT, None), (SYN_DROPPED, None)]"
    by (simp add: enter_dev_def enable_def enable_prop_def Device_def InputAbsInfo_def)
  have p: "dev_name enter_dev = ''Tablet alone''" "properties enter_dev = [INPUT_PROP_DIRECT]"
    by (simp_all add: enter_dev_def enable_def enable_prop_def Device_def)
  have d: "map_sum id dev (enter nm None now) = Inr enter_dev"
    by (simp add: enter_def reset_state_def print_def)
  have s: "set (map fst (evbits enter_dev)) =
       {BTN_TOOL_PEN, BTN_TOOL_RUBBER, BTN_TOUCH, BTN_STYLUS, BTN_STYLUS2,
        ABS_X, ABS_Y, ABS_PRESSURE, SYN_REPORT, SYN_DROPPED}"
    unfolding e by auto
  from e p d s show ?thesis by (simp only: simp_thms)
qed

section \<open>The pen is never away again\<close>

lemma main_loop_not_away:
  "\<not> is_away s \<Longrightarrow> \<not> is_away (fst (main_loop fs s))"
  using main_loop_away [of fs s] by blast

text \<open>
  Claim C10. Handling a touch-key event or an absolute axis event, and each of the press,
  release and axis methods, leaves \<open>is_away\<close> false. The loop of \<open>main\<close> never makes
  \<open>is_away\<close> true: after such an event it stays false whatever the device delivers, and if
  it is true after a run it was true before. Every pen-proximity event sent to the virtual
  device during a run from the state after \<open>__enter__\<close> has the value 1.
\<close>

theorem supported_events_clear_away:
  assumes "ev_code e \<in> {ABS_PRESSURE, ABS_X, ABS_Y, BTN_LEFT}"
  shows "\<not> is_away (handle_event now e s)
       \<and> \<not> is_away (touch_press now s) \<and> \<not> is_away (touch_release now s)
       \<and> \<not> is_away (button_1_press now s) \<and> \<not> is_away (button_1_release now s)
       \<and> \<not> is_away (button_2_press now s) \<and> \<not> is_away (button_2_release now s)
       \<and> \<not> is_away (move_x now v s) \<and> \<not> is_away (move_y now v s)
       \<and> \<not> is_away (change_pressure now v s)
       \<and> \<not> is_away (fst (main_loop fs (handle_event now e s)))
       \<and> (is_away (fst (main_loop fs s)) \<longrightarrow> is_away s)
       \<and> list_all (\<lambda>v. v = 1) (proximity_reports (uinput (fst (main_loop fs (entered t0)))))"
proof -
  from assms have "is_axis (ev_code e) \<or> ev_code e = BTN_LEFT"
    by (auto simp: is_axis_def)
  then have h: "\<not> is_away (handle_event now e s)"
    by (auto simp: handle_event_axis handle_event_touch)
  then have l: "\<not> is_away (fst (main_loop fs (handle_event now e s)))"
    by (rule main_loop_not_away)
  have m: "\<not> is_away (touch_press now s)" "\<not> is_away (touch_release now s)"
    "\<not> is_away (button_1_press now s)" "\<not> is_away (button_1_release now s)"
    "\<not> is_away (button_2_press now s)" "\<not> is_away (button_2_release now s)"
    "\<not> is_away (move_x now v s)" "\<not> is_away (move_y now v s)"
    "\<not> is_away (change_pressure now v s)"
    by (simp_all add: touch_press_def touch_release_def button_1_press_def
        button_1_release_def button_2_press_def button_2_release_def move_x_def move_y_def
        change_pressure_def)
  have k: "is_away (fst (main_loop fs s)) \<longrightarrow> is_away s"
    using main_loop_away [of fs s] by blast
  have "list_all (\<lambda>v. v = 1) (proximity_reports (uinput (entered t0)))"
    by (simp add: proximity_reports_def)
  then have p: "list_all (\<lambda>v. v = 1)
      (proximity_reports (uinput (fst (main_loop fs (entered t0)))))"
    by (rule main_loop_proximity)
  from h l m k p show ?thesis by (simp only: simp_thms)
qed

text \<open>
  A release from the state after \<open>__enter__\<close>, followed by a sync marker and a batch with
  an unknown code; the same run without the release stays away.
\<close>

theorem supported_events_clear_away_witness:
  "ev_code (raw BTN_LEFT 0) \<in> {ABS_PRESSURE, ABS_X, ABS_Y, BTN_LEFT}
   \<and> is_away (entered 0)
   \<and> \<not> is_away (handle_event 1 (raw BTN_LEFT 0) (entered 0))
   \<and> \<not> is_away (fst (main_loop [Event 2 (raw SYN_REPORT 0), Dropped [(3, raw (Other_code 9) 1)]]
                        (handle_event 1 (raw BTN_LEFT 0) (entered 0))))
   \<and> is_away (fst (main_loop [Event 2 (raw SYN_REPORT 0), Dropped [(3, raw (Other_code 9) 1)]]
                      (entered 0)))
   \<and> proximity_reports (uinput (fst (main_loop
         [Event 2 (raw BTN_LEFT 1), Event 3 (raw ABS_X 4), Event 4 (raw BTN_LEFT 0)]
         (entered 0)))) = [1, 1]"
proof -
  have c: "ev_code (raw BTN_LEFT 0) \<in> {ABS_PRESSURE, ABS_X, ABS_Y, BTN_LEFT}"
    by (simp add: raw_def)
  have a: "is_away (fst (main_loop [Event 2 (raw SYN_REPORT 0),
      Dropped [(3, raw (Other_code 9) 1)]] (entered 0)))"
    by (simp add: loop_body_away raw_def)
  have p: "proximity_reports (uinput (fst (main_loop
         [Event 2 (raw BTN_LEFT 1), Event 3 (raw ABS_X 4), Event 4 (raw BTN_LEFT 0)]
         (entered 0)))) = [1, 1]"
    by (simp add: loop_body_uinput replay_burst_def raw_def proximity_reports_def
        InputEvent_def)
  show ?thesis
    using c a p supported_events_clear_away [OF c, of 1 "entered 0" 0
        "[Event 2 (raw SYN_REPORT 0), Dropped [(3, raw (Other_code 9) 1)]]" 0]
    by simp
qed

end
